theory Spec2Isabelle
  imports
    Complex_Main
    "HOL-Library.AList"
    "HOL-Library.Char_ord"
    "HOL-Library.List_Lexorder"
    "HOL-Library.Sublist"
begin

text \<open>
  A shallow embedding of the cost analytics dashboards: the filter rules, the date
  bucketer, the aggregator with its pie, bar and area series, the column classifier and the
  spreadsheet loader, followed by the properties the specification claims of them.
\<close>

section \<open>Strings and cells\<close>

text \<open>
  A JavaScript string is modelled as a \<^typ>\<open>string\<close>: the list of the bytes of its UTF-8
  encoding. Equality, concatenation and substring search on code points are equality,
  concatenation and substring search on these bytes. Case folding and trimming are
  modelled on ASCII: a letter or a blank outside ASCII is left as it is.

  A cell of the grid (\<^verbatim>\<open>any\<close> in the source) is a missing cell (a hole of the row
  array, which the sheet decoder leaves for an empty cell and which reads as
  \<^verbatim>\<open>undefined\<close>), a string, or another primitive (a number or a boolean), which the
  code only ever reads through \<^verbatim>\<open>String(v)\<close> and which is therefore carried by that
  string form.
\<close>

datatype cell = Undefined | Str string | NonString string

type_synonym RawRow = "cell list"

text \<open>\<^verbatim>\<open>row[i]\<close>: reading past the end of a JavaScript array gives \<^verbatim>\<open>undefined\<close>.\<close>

definition cellAt :: "RawRow \<Rightarrow> nat \<Rightarrow> cell" where
  "cellAt row i = (if i < length row then row ! i else Undefined)"

text \<open>\<^verbatim>\<open>String(v ?? "")\<close>.\<close>

fun cellString :: "cell \<Rightarrow> string" where
  "cellString Undefined = []"
| "cellString (Str s) = s"
| "cellString (NonString s) = s"

definition toLowerChar :: "char \<Rightarrow> char" where
  "toLowerChar c =
     (if CHR ''A'' \<le> c \<and> c \<le> CHR ''Z'' then char_of (of_char c + (32 :: nat)) else c)"

definition toLowerCase :: "string \<Rightarrow> string" where
  "toLowerCase s = map toLowerChar s"

text \<open>\<^verbatim>\<open>hay.includes(needle)\<close>: the needle occurs at some position of the haystack.\<close>

fun str_includes :: "string \<Rightarrow> string \<Rightarrow> bool" where
  "str_includes [] needle = (needle = [])"
| "str_includes (h # hay) needle = (prefix needle (h # hay) \<or> str_includes hay needle)"

definition isWhiteSpace :: "char \<Rightarrow> bool" where
  "isWhiteSpace c = (of_char c \<in> {9, 10, 11, 12, 13, 32 :: nat})"

definition trim :: "string \<Rightarrow> string" where
  "trim s = rev (dropWhile isWhiteSpace (rev (dropWhile isWhiteSpace s)))"

definition isDigit :: "char \<Rightarrow> bool" where
  "isDigit c = (CHR ''0'' \<le> c \<and> c \<le> CHR ''9'')"

section \<open>Filter rules\<close>

datatype FilterOp = Contains | Equals | NotContains | NotEquals

record FilterRule =
  colIdx :: nat
  op :: FilterOp
  "value" :: string

fun matchesRow :: "RawRow \<Rightarrow> FilterRule list \<Rightarrow> bool" where
  "matchesRow row [] = True"
| "matchesRow row (r # rules) =
     (let v = cellString (cellAt row (colIdx r)); needle = value r in
      case op r of
        Contains \<Rightarrow>
          if \<not> str_includes (toLowerCase v) (toLowerCase needle) then False
          else matchesRow row rules
      | Equals \<Rightarrow> if v \<noteq> needle then False else matchesRow row rules
      | NotContains \<Rightarrow>
          if str_includes (toLowerCase v) (toLowerCase needle) then False
          else matchesRow row rules
      | NotEquals \<Rightarrow> if v = needle then False else matchesRow row rules)"



text \<open>The example grid of the specification (section 8).\<close>

definition exampleGrid :: "RawRow list" where
  "exampleGrid =
     [[Str ''2024-01-05'', Str ''10'', Str ''VM''],
      [Str ''2024-01-20'', Str ''5'', Str ''VM''],
      [Str ''2024-02-01'', Str ''7'', Str ''Storage'']]"

section \<open>Numbers, dates and the JavaScript runtime\<close>

text \<open>
  Numbers are modelled as exact rationals: the rounding of IEEE doubles and the infinities
  are outside the model. \<^verbatim>\<open>NaN\<close> is \<^term>\<open>None\<close> wherever a builtin can return it.

  A \<^verbatim>\<open>Date\<close> object is either invalid (its time value is \<^verbatim>\<open>NaN\<close>) or is read by
  the code through \<^verbatim>\<open>getFullYear()\<close>, \<^verbatim>\<open>getMonth()\<close> (0 to 11) and
  \<^verbatim>\<open>getDate()\<close>, the calendar fields in local time.
\<close>

datatype Date = InvalidDate | LocalDate int int int

text \<open>
  The builtins whose result the language leaves to the implementation or to the locale are
  parameters of the model:
  \<^item> \<open>localOffset z\<close>: the minutes local time is ahead of UTC at UTC midnight of day
    number \<open>z\<close> (days since 1970-01-01);
  \<^item> \<open>otherDateParse s\<close>: \<^verbatim>\<open>new Date(s)\<close> for a string that is not one of the
    date-only forms of the ECMAScript date-time string format;
  \<^item> \<open>numberIsNaN s\<close>: whether \<^verbatim>\<open>Number(s)\<close> is \<^verbatim>\<open>NaN\<close>;
  \<^item> \<open>parseFloat s\<close>: \<^verbatim>\<open>parseFloat(s)\<close>;
  \<^item> \<open>localeCompare a b\<close>: \<^verbatim>\<open>a.localeCompare(b)\<close>.
\<close>

record runtime =
  localOffset :: "int \<Rightarrow> int"
  otherDateParse :: "string \<Rightarrow> Date"
  numberIsNaN :: "string \<Rightarrow> bool"
  parseFloat :: "string \<Rightarrow> rat option"
  localeCompare :: "string \<Rightarrow> string \<Rightarrow> int"

subsection \<open>Decimal strings\<close>

definition digitVal :: "char \<Rightarrow> nat" where
  "digitVal c = of_char c - 48"

text \<open>\<^verbatim>\<open>Number(s)\<close> for a string of decimal digits.\<close>

definition digitsToNat :: "string \<Rightarrow> nat" where
  "digitsToNat s = foldl (\<lambda>n c. 10 * n + digitVal c) 0 s"

definition digitChar :: "nat \<Rightarrow> char" where
  "digitChar n = char_of (48 + n)"

text \<open>\<^verbatim>\<open>String(n)\<close> for an integer \<open>n\<close>.\<close>

fun showNat :: "nat \<Rightarrow> string" where
  "showNat n = (if n < 10 then [digitChar n] else showNat (n div 10) @ [digitChar (n mod 10)])"

declare showNat.simps [simp del]

definition showInt :: "int \<Rightarrow> string" where
  "showInt i = (if i < 0 then CHR ''-'' # showNat (nat (- i)) else showNat (nat i))"

text \<open>\<^verbatim>\<open>s.padStart(2, "0")\<close>.\<close>

definition padStart2 :: "string \<Rightarrow> string" where
  "padStart2 s = replicate (2 - length s) CHR ''0'' @ s"

subsection \<open>The proleptic Gregorian calendar of ECMAScript\<close>

text \<open>Day number (days since 1970-01-01) of a civil date, the month counted from 1.\<close>

definition daysFromCivil :: "int \<Rightarrow> int \<Rightarrow> int \<Rightarrow> int" where
  "daysFromCivil y m d =
     (let y' = (if m \<le> 2 then y - 1 else y);
          era = y' div 400;
          yoe = y' - era * 400;
          doy = (153 * (if m > 2 then m - 3 else m + 9) + 2) div 5 + d - 1;
          doe = yoe * 365 + yoe div 4 - yoe div 100 + doy
      in era * 146097 + doe - 719468)"

text \<open>The civil date (year, month from 1, day) of a day number.\<close>

definition civilFromDays :: "int \<Rightarrow> int \<times> int \<times> int" where
  "civilFromDays z0 =
     (let z = z0 + 719468;
          era = z div 146097;
          doe = z - era * 146097;
          yoe = (doe - doe div 1460 + doe div 36524 - doe div 146096) div 365;
          doy = doe - (365 * yoe + yoe div 4 - yoe div 100);
          mp = (5 * doy + 2) div 153;
          d = doy - (153 * mp + 2) div 5 + 1;
          m = (if mp < 10 then mp + 3 else mp - 9)
      in (yoe + era * 400 + (if m \<le> 2 then 1 else 0), m, d))"

definition daysInMonth :: "int \<Rightarrow> int \<Rightarrow> int" where
  "daysInMonth y m =
     (if m = 12 then daysFromCivil (y + 1) 1 1 else daysFromCivil y (m + 1) 1)
       - daysFromCivil y m 1"


subsection \<open>Date construction\<close>

definition digits :: "nat \<Rightarrow> string \<Rightarrow> bool" where
  "digits n s = (length s = n \<and> list_all isDigit s)"

text \<open>
  Modelled from the ECMAScript specification (Date Time String Format): the date-only
  forms \<^verbatim>\<open>YYYY\<close>, \<^verbatim>\<open>YYYY-MM\<close> and \<^verbatim>\<open>YYYY-MM-DD\<close> with a month from 01 to 12
  and a day that exists in that month. The result is the civil date (month from 1) that
  the string names.
\<close>

definition isoDateOnly :: "string \<Rightarrow> (int \<times> int \<times> int) option" where
  "isoDateOnly s =
     (let y = int (digitsToNat (take 4 s));
          m = int (digitsToNat (take 2 (drop 5 s)));
          d = int (digitsToNat (take 2 (drop 8 s)))
      in if digits 4 s then Some (y, 1, 1)
         else if length s = 7 \<and> digits 4 (take 4 s) \<and> s ! 4 = CHR ''-'' \<and> digits 2 (drop 5 s)
                 \<and> 1 \<le> m \<and> m \<le> 12
           then Some (y, m, 1)
         else if length s = 10 \<and> digits 4 (take 4 s) \<and> s ! 4 = CHR ''-''
                 \<and> digits 2 (take 2 (drop 5 s)) \<and> s ! 7 = CHR ''-'' \<and> digits 2 (drop 8 s)
                 \<and> 1 \<le> m \<and> m \<le> 12 \<and> 1 \<le> d \<and> d \<le> daysInMonth y m
           then Some (y, m, d)
         else None)"

text \<open>
  \<^verbatim>\<open>new Date(s)\<close>. Modelled from the ECMAScript specification: a date-only form is
  midnight UTC of that date, which the getters then read in local time; every other string
  is left to the implementation.
\<close>

definition newDateFromString :: "runtime \<Rightarrow> string \<Rightarrow> Date" where
  "newDateFromString rt s =
     (case isoDateOnly s of
        Some (y, m, d) \<Rightarrow>
          (let z = daysFromCivil y m d in
           case civilFromDays (z + localOffset rt z div 1440) of
             (Y, M, D) \<Rightarrow> LocalDate Y (M - 1) D)
      | None \<Rightarrow> otherDateParse rt s)"

text \<open>
  \<^verbatim>\<open>new Date(year, monthIndex, day)\<close>. Modelled from the ECMAScript specification: a
  year from 0 to 99 means 1900 + year, the month index and the day may lie outside their
  ranges and carry over (MakeDay), and the fields are local time, as the getters are:
  local midnight of a civil date reads back as that date.
\<close>

definition newDateFromParts :: "int \<Rightarrow> int \<Rightarrow> int \<Rightarrow> Date" where
  "newDateFromParts year monthIndex day =
     (let yr = (if 0 \<le> year \<and> year \<le> 99 then 1900 + year else year);
          z = daysFromCivil (yr + monthIndex div 12) (monthIndex mod 12 + 1) 1 + (day - 1)
      in case civilFromDays z of (Y, M, D) \<Rightarrow> LocalDate Y (M - 1) D)"

subsection \<open>A runtime for concrete inputs\<close>

text \<open>
  Modelled from the ECMAScript specification (StrDecimalLiteral): the longest prefix that
  is a decimal literal with an optional sign, fraction and exponent, its value, and the
  rest of the string. The literal \<^verbatim>\<open>Infinity\<close> has no rational value and is not
  covered.
\<close>

definition decimalPrefix :: "string \<Rightarrow> (rat \<times> string) option" where
  "decimalPrefix s0 =
     (let negative = (take 1 s0 = ''-'');
          s = (if take 1 s0 = ''-'' \<or> take 1 s0 = ''+'' then drop 1 s0 else s0);
          ip = takeWhile isDigit s;
          r1 = dropWhile isDigit s;
          hasDot = (take 1 r1 = ''.'');
          fp = (if hasDot then takeWhile isDigit (drop 1 r1) else []);
          r2 = (if hasDot then dropWhile isDigit (drop 1 r1) else r1);
          r3 = drop 1 r2;
          eneg = (take 1 r3 = ''-'');
          r4 = (if take 1 r3 = ''-'' \<or> take 1 r3 = ''+'' then drop 1 r3 else r3);
          ed = takeWhile isDigit r4;
          hasExp = ((take 1 r2 = ''e'' \<or> take 1 r2 = ''E'') \<and> ed \<noteq> []);
          mant = of_nat (digitsToNat (ip @ fp)) / 10 ^ length fp;
          v = (if hasExp
               then (if eneg then mant / 10 ^ digitsToNat ed else mant * 10 ^ digitsToNat ed)
               else mant);
          rest = (if hasExp then dropWhile isDigit r4 else r2)
      in if ip = [] \<and> fp = [] then None else Some (if negative then - v else v, rest))"

text \<open>
  A runtime at a fixed offset from UTC. Its \<^verbatim>\<open>new Date(s)\<close> rejects every string
  beyond the date-only forms, as the language allows; its \<^verbatim>\<open>parseFloat\<close> and
  \<^verbatim>\<open>Number\<close> read decimal literals (\<^verbatim>\<open>Number("")\<close> is 0; hexadecimal, octal
  and binary literals are not covered); its \<^verbatim>\<open>localeCompare\<close> compares code units,
  as a locale's collation does on zero-padded dates of one shape.
\<close>

definition sampleRuntime :: "int \<Rightarrow> runtime" where
  "sampleRuntime offset =
     \<lparr>localOffset = (\<lambda>z. offset),
      otherDateParse = (\<lambda>s. InvalidDate),
      numberIsNaN = (\<lambda>s. let t = trim s in
                        if t = [] then False
                        else (case decimalPrefix t of Some (v, []) \<Rightarrow> False | _ \<Rightarrow> True)),
      parseFloat = (\<lambda>s. map_option fst (decimalPrefix (dropWhile isWhiteSpace s))),
      localeCompare = (\<lambda>a b. if a < b then - 1 else if a = b then 0 else 1)\<rparr>"

section \<open>The date bucketer\<close>

datatype DateFormat = Auto | YYYY_MM_DD | MM_DD_YYYY | DD_MM_YYYY | YYYY_MM_DD_slash | DD_MMM_YYYY

text \<open>\<^verbatim>\<open>s.split(sep)\<close>, used to match the fixed patterns below.\<close>

fun splitOn :: "char \<Rightarrow> string \<Rightarrow> string list" where
  "splitOn sep [] = [[]]"
| "splitOn sep (c # cs) =
     (if c = sep then [] # splitOn sep cs
      else (case splitOn sep cs of p # ps \<Rightarrow> (c # p) # ps | [] \<Rightarrow> [[c]]))"

text \<open>
  A pattern \<^verbatim>\<open>^(A)sep(B)sep(C)$\<close> whose three groups are character classes that
  exclude the separator: the string splits at the separator into exactly three parts, one
  in each class.
\<close>

definition match3 ::
  "char \<Rightarrow> (string \<Rightarrow> bool) \<Rightarrow> (string \<Rightarrow> bool) \<Rightarrow> (string \<Rightarrow> bool) \<Rightarrow> string
     \<Rightarrow> (string \<times> string \<times> string) option" where
  "match3 sep A B C s =
     (case splitOn sep s of
        [a, b, c] \<Rightarrow> if A a \<and> B b \<and> C c then Some (a, b, c) else None
      | _ \<Rightarrow> None)"

text \<open>\<^verbatim>\<open>\d{4}\<close>, \<^verbatim>\<open>\d{1,2}\<close> and \<^verbatim>\<open>[A-Za-z]{3}\<close>.\<close>

definition d4 :: "string \<Rightarrow> bool" where
  "d4 s = digits 4 s"

definition d12 :: "string \<Rightarrow> bool" where
  "d12 s = (digits 1 s \<or> digits 2 s)"

definition isLetter :: "char \<Rightarrow> bool" where
  "isLetter c = ((CHR ''A'' \<le> c \<and> c \<le> CHR ''Z'') \<or> (CHR ''a'' \<le> c \<and> c \<le> CHR ''z''))"

definition letters3 :: "string \<Rightarrow> bool" where
  "letters3 s = (length s = 3 \<and> list_all isLetter s)"

definition months :: "(string \<times> int) list" where
  "months =
     [(''Jan'', 0), (''Feb'', 1), (''Mar'', 2), (''Apr'', 3), (''May'', 4), (''Jun'', 5),
      (''Jul'', 6), (''Aug'', 7), (''Sep'', 8), (''Oct'', 9), (''Nov'', 10), (''Dec'', 11)]"

definition num :: "string \<Rightarrow> int" where
  "num s = int (digitsToNat s)"

fun parseDateWithFormat :: "runtime \<Rightarrow> string \<Rightarrow> DateFormat \<Rightarrow> Date" where
  "parseDateWithFormat rt s Auto = newDateFromString rt s"
| "parseDateWithFormat rt s YYYY_MM_DD =
     (case match3 CHR ''-'' d4 d12 d12 s of
        None \<Rightarrow> InvalidDate
      | Some (m1, m2, m3) \<Rightarrow> newDateFromParts (num m1) (num m2 - 1) (num m3))"
| "parseDateWithFormat rt s MM_DD_YYYY =
     (case match3 CHR ''/'' d12 d12 d4 s of
        None \<Rightarrow> InvalidDate
      | Some (m1, m2, m3) \<Rightarrow> newDateFromParts (num m3) (num m1 - 1) (num m2))"
| "parseDateWithFormat rt s DD_MM_YYYY =
     (case match3 CHR ''/'' d12 d12 d4 s of
        None \<Rightarrow> InvalidDate
      | Some (m1, m2, m3) \<Rightarrow> newDateFromParts (num m3) (num m2 - 1) (num m1))"
| "parseDateWithFormat rt s YYYY_MM_DD_slash =
     (case match3 CHR ''/'' d4 d12 d12 s of
        None \<Rightarrow> InvalidDate
      | Some (m1, m2, m3) \<Rightarrow> newDateFromParts (num m1) (num m2 - 1) (num m3))"
| "parseDateWithFormat rt s DD_MMM_YYYY =
     (case match3 CHR ''-'' d12 letters3 d4 s of
        None \<Rightarrow> InvalidDate
      | Some (m1, m2, m3) \<Rightarrow>
          (case map_of months m2 of
             None \<Rightarrow> InvalidDate
           | Some mon \<Rightarrow> newDateFromParts (num m3) mon (num m1)))"

text \<open>The fallback pattern \<^verbatim>\<open>/^(\d{4})[-/](\d{1,2})/\<close>: the captured year and month.\<close>

definition matchYearMonth :: "string \<Rightarrow> (string \<times> string) option" where
  "matchYearMonth s =
     (let y = take 4 s; m = takeWhile isDigit (take 2 (drop 5 s)) in
      if digits 4 y \<and> (take 1 (drop 4 s) = ''-'' \<or> take 1 (drop 4 s) = ''/'') \<and> m \<noteq> []
      then Some (y, m) else None)"

definition formatDateBucket :: "runtime \<Rightarrow> cell \<Rightarrow> bool \<Rightarrow> DateFormat \<Rightarrow> string" where
  "formatDateBucket rt v monthBucket format =
     (let s = trim (cellString v) in
      if s = [] then s
      else case parseDateWithFormat rt s format of
        InvalidDate \<Rightarrow>
          (case matchYearMonth s of
             Some (y, mm) \<Rightarrow> y @ ''-'' @ padStart2 mm
           | None \<Rightarrow> s)
      | LocalDate y m d \<Rightarrow>
          if \<not> monthBucket
          then showInt y @ ''-'' @ padStart2 (showInt (m + 1)) @ ''-'' @ padStart2 (showInt d)
          else showInt y @ ''-'' @ padStart2 (showInt (m + 1)))"


section \<open>The aggregator\<close>

datatype Aggregation = Sum | Avg | Count

text \<open>\<^verbatim>\<open>parseFloat(String(v ?? "").replace(/,/g, ""))\<close>, with \<^verbatim>\<open>NaN\<close> read as 0.\<close>

definition parseFloatSafe :: "runtime \<Rightarrow> cell \<Rightarrow> rat" where
  "parseFloatSafe rt v =
     (case parseFloat rt (filter (\<lambda>c. c \<noteq> CHR '','') (cellString v)) of
        None \<Rightarrow> 0
      | Some n \<Rightarrow> n)"

text \<open>\<^verbatim>\<open>parts.join(sep)\<close>.\<close>

fun joinWith :: "string \<Rightarrow> string list \<Rightarrow> string" where
  "joinWith sep [] = []"
| "joinWith sep [p] = p"
| "joinWith sep (p # q # ps) = p @ sep @ joinWith sep (q # ps)"

text \<open>The separator of group keys: a blank, the bullet U+2022 (three bytes), a blank.\<close>

definition bulletSep :: string where
  "bulletSep = [CHR '' '', CHR 0xE2, CHR 0x80, CHR 0xA2, CHR '' '']"

definition buildGroupKey :: "RawRow \<Rightarrow> nat list \<Rightarrow> string" where
  "buildGroupKey row dimIdxs =
     (if dimIdxs = [] then ''All''
      else joinWith bulletSep
             (map (\<lambda>idx. let val = cellAt row idx in
                     if val = Undefined \<or> val = Str [] then ''(empty)'' else cellString val)
                dimIdxs))"

text \<open>
  The accumulation loop that the pie, bar and area series share. The
  \<^verbatim>\<open>Map<string, { sum, count }>\<close> is an association list in insertion order:
  \<^verbatim>\<open>get\<close> is \<^const>\<open>map_of\<close> and \<^verbatim>\<open>set\<close> is \<^const>\<open>AList.update\<close>, which
  keeps the place of a key that is already there.
\<close>

type_synonym Totals = "(string \<times> (rat \<times> nat)) list"

definition addRow ::
  "FilterRule list \<Rightarrow> (RawRow \<Rightarrow> string) \<Rightarrow> (RawRow \<Rightarrow> rat) \<Rightarrow> RawRow \<Rightarrow> Totals \<Rightarrow> Totals" where
  "addRow filterRules keyOf valOf row totals =
     (if \<not> matchesRow row filterRules then totals
      else let key = keyOf row;
               val = valOf row;
               prev = (case map_of totals key of Some p \<Rightarrow> p | None \<Rightarrow> (0, 0))
           in AList.update key (fst prev + val, snd prev + 1) totals)"

definition accumulate ::
  "FilterRule list \<Rightarrow> (RawRow \<Rightarrow> string) \<Rightarrow> (RawRow \<Rightarrow> rat) \<Rightarrow> RawRow list \<Rightarrow> Totals" where
  "accumulate filterRules keyOf valOf rawRows =
     fold (addRow filterRules keyOf valOf) rawRows []"

text \<open>
  \<^verbatim>\<open>aggregation === "sum" ? sum : aggregation === "count" ? count : count ? sum / count : 0\<close>
\<close>

definition reduced :: "Aggregation \<Rightarrow> rat \<times> nat \<Rightarrow> rat" where
  "reduced aggregation t =
     (case t of (acc_sum, acc_count) \<Rightarrow>
        if aggregation = Sum then acc_sum
        else if aggregation = Count then of_nat acc_count
        else if acc_count \<noteq> 0 then acc_sum / of_nat acc_count else 0)"

text \<open>\<^verbatim>\<open>aggregation === "count" ? 1 : parseFloatSafe(row[primaryMetricIdx])\<close>\<close>

definition metricVal :: "runtime \<Rightarrow> Aggregation \<Rightarrow> nat \<Rightarrow> RawRow \<Rightarrow> rat" where
  "metricVal rt aggregation primaryMetricIdx row =
     (if aggregation = Count then 1 else parseFloatSafe rt (cellAt row primaryMetricIdx))"

text \<open>\<^verbatim>\<open>selectedDims.length ? buildGroupKey(row, selectedDims) : "All"\<close>\<close>

definition pieKey :: "nat list \<Rightarrow> RawRow \<Rightarrow> string" where
  "pieKey selectedDims row =
     (if selectedDims \<noteq> [] then buildGroupKey row selectedDims else ''All'')"

text \<open>The pie series: a list of (group, value).\<close>

definition pieData ::
  "runtime \<Rightarrow> string list option \<Rightarrow> RawRow list \<Rightarrow> nat option \<Rightarrow> nat list \<Rightarrow> Aggregation
     \<Rightarrow> FilterRule list \<Rightarrow> (string \<times> rat) list" where
  "pieData rt headerRow rawRows primaryMetricIdx selectedDims aggregation filterRules =
     (case (headerRow, primaryMetricIdx) of
        (Some h, Some m) \<Rightarrow>
          if rawRows = [] then []
          else map (\<lambda>(group, t). (group, reduced aggregation t))
                 (accumulate filterRules (pieKey selectedDims)
                    (metricVal rt aggregation m) rawRows)
      | _ \<Rightarrow> [])"






section \<open>The column classifier\<close>

record Mapping =
  dateIdx :: int
  costIdx :: int
  serviceIdx :: int

text \<open>The number of columns \<^verbatim>\<open>cols\<close> that \<^verbatim>\<open>detectFromData\<close> works with.\<close>

definition columnCount :: "string list option \<Rightarrow> RawRow list \<Rightarrow> nat" where
  "columnCount headerRow rawRows =
     (case headerRow of
        Some h \<Rightarrow> length h
      | None \<Rightarrow> (case rawRows of r # _ \<Rightarrow> length r | [] \<Rightarrow> 3))"

text \<open>\<^verbatim>\<open>Math.max(...xs)\<close>; \<^term>\<open>None\<close> is \<^verbatim>\<open>-Infinity\<close>, the maximum of no numbers.\<close>

definition Math_max :: "nat list \<Rightarrow> nat option" where
  "Math_max xs = (if xs = [] then None else Some (Max (set xs)))"

text \<open>\<^verbatim>\<open>xs.indexOf(y)\<close>: the first position of \<open>y\<close>, or -1.\<close>

fun indexOf :: "'a list \<Rightarrow> 'a \<Rightarrow> int" where
  "indexOf [] y = - 1"
| "indexOf (x # xs) y =
     (if x = y then 0 else (let i = indexOf xs y in if i < 0 then - 1 else i + 1))"

text \<open>The two tests of the scoring loop on one cell.\<close>

definition dateHit :: "runtime \<Rightarrow> cell \<Rightarrow> bool" where
  "dateHit rt v =
     (v \<noteq> Undefined \<and>
      (let s = trim (cellString v) in
       newDateFromString rt s \<noteq> InvalidDate \<and> numberIsNaN rt s))"

definition numericHit :: "runtime \<Rightarrow> cell \<Rightarrow> bool" where
  "numericHit rt v = (v \<noteq> Undefined \<and> \<not> numberIsNaN rt (trim (cellString v)))"

definition columnScores :: "(cell \<Rightarrow> bool) \<Rightarrow> nat \<Rightarrow> RawRow list \<Rightarrow> nat list" where
  "columnScores hit cols rawRows =
     (let rowsToCheck = min (length rawRows) 10 in
      map (\<lambda>c. length (filter (\<lambda>row. hit (cellAt row c)) (take rowsToCheck rawRows)))
        [0..<cols])"

definition detectFromData :: "runtime \<Rightarrow> string list option \<Rightarrow> RawRow list \<Rightarrow> Mapping" where
  "detectFromData rt headerRow rawRows =
     (let cols = columnCount headerRow rawRows;
          dateScores = columnScores (dateHit rt) cols rawRows;
          numericScores = columnScores (numericHit rt) cols rawRows;
          dateIdx0 = (case Math_max dateScores of
                        None \<Rightarrow> - 1 | Some m \<Rightarrow> indexOf dateScores m);
          costIdx0 = (case Math_max numericScores of
                        None \<Rightarrow> - 1 | Some m \<Rightarrow> indexOf numericScores m);
          serviceIdx0 = (case find (\<lambda>c. int c \<noteq> dateIdx0 \<and> int c \<noteq> costIdx0) [0..<cols] of
                           Some c \<Rightarrow> int c | None \<Rightarrow> 0)
      in \<lparr>dateIdx = (if dateIdx0 \<ge> 0 then dateIdx0 else 0),
          costIdx = (if costIdx0 \<ge> 0 then costIdx0 else 1),
          serviceIdx = serviceIdx0\<rparr>)"

text \<open>
  The mapping that \<^verbatim>\<open>onDrop\<close> of the dashboard with extra fields chooses when the
  sheet has a header row: the guess of \<^verbatim>\<open>detectFromData\<close>, with the cost and
  the service column replaced where the lower-cased header has the names it knows.
\<close>

definition useMapping :: "runtime \<Rightarrow> string list \<Rightarrow> RawRow list \<Rightarrow> Mapping" where
  "useMapping rt firstRow rows =
     (let guessed = detectFromData rt (Some firstRow) rows;
          headerLower = map toLowerCase firstRow;
          costIdx1 = indexOf headerLower ''cost'';
          meterIdx = indexOf headerLower ''metercategory''
      in \<lparr>dateIdx = dateIdx guessed,
          costIdx = (if costIdx1 \<ge> 0 then costIdx1 else costIdx guessed),
          serviceIdx = (if meterIdx \<ge> 0 then meterIdx else serviceIdx guessed)\<rparr>)"

section \<open>The first dashboard: totals by date\<close>

record CostData =
  date :: string
  cost :: rat
  service :: string




section \<open>The spreadsheet loader\<close>

record AppState =
  rawRows :: "RawRow list"
  headerRow :: "string list option"
  mapping :: "Mapping option"
  data :: "CostData list"
  previewRows :: "CostData list"
  warnings :: "string list"

text \<open>
  What the file reader delivers to \<^verbatim>\<open>onDrop\<close>: no file at all, a workbook whose
  first sheet decodes to a grid, or a decoder that throws (the string is
  \<^verbatim>\<open>String(err)\<close>).
\<close>

datatype Dropped = NoFile | Decoded "RawRow list" | DecodeError string

text \<open>
  \<^verbatim>\<open>rows[0].every((c) => typeof c === "string")\<close>. A missing cell is a hole of the
  row array, which \<^verbatim>\<open>every\<close> skips.
\<close>

definition isHeaderCell :: "cell \<Rightarrow> bool" where
  "isHeaderCell c = (case c of NonString _ \<Rightarrow> False | _ \<Rightarrow> True)"

definition parseRow :: "runtime \<Rightarrow> Mapping \<Rightarrow> RawRow \<Rightarrow> CostData" where
  "parseRow rt guessed r =
     (let rc = parseFloat rt (cellString (cellAt r (nat (costIdx guessed))));
          cost = (case rc of None \<Rightarrow> 0 | Some n \<Rightarrow> n)
      in \<lparr>date = cellString (cellAt r (nat (dateIdx guessed))),
          cost = cost,
          service = cellString (cellAt r (nat (serviceIdx guessed)))\<rparr>)"

definition onDrop :: "runtime \<Rightarrow> AppState \<Rightarrow> Dropped \<Rightarrow> AppState" where
  "onDrop rt st dropped =
     (case dropped of
        NoFile \<Rightarrow> st
      | DecodeError err \<Rightarrow> st\<lparr>warnings := [''Failed to parse file: '' @ err]\<rparr>
      | Decoded rows0 \<Rightarrow>
          (let firstRowIsHeader = (rows0 \<noteq> [] \<and> list_all isHeaderCell (hd rows0));
               firstRow = (if firstRowIsHeader then Some (map cellString (hd rows0)) else None);
               rows = (if firstRowIsHeader then tl rows0 else rows0);
               guessed = detectFromData rt firstRow rows;
               parsed = map (parseRow rt guessed) rows
           in st\<lparr>headerRow := firstRow, rawRows := rows, mapping := Some guessed,
                  data := parsed, previewRows := take 10 parsed, warnings := []\<rparr>))"

section \<open>Running sums, as the specification words them\<close>


section \<open>The fallback of the bucketer, as the specification words it\<close>



section \<open>Example inputs\<close>

text \<open>A header row with the column names of an Azure cost export, and no data rows.\<close>

definition azureHeader :: "string list" where
  "azureHeader = [''ServiceName'', ''Notes'', ''UsageDate'', ''COST'']"

text \<open>A grid of text cells only, and a header that names a meter category.\<close>

definition textGrid :: "RawRow list" where
  "textGrid = [[Str ''a'', Str ''b'']]"

definition meterHeader :: "string list" where
  "meterHeader = [''Day'', ''Amount'', ''MeterCategory'']"

text \<open>The state of the first dashboard before any file is dropped.\<close>

definition initialState :: AppState where
  "initialState =
     \<lparr>rawRows = [], headerRow = None, mapping = None, data = [], previewRows = [],
      warnings = []\<rparr>"

text \<open>A grid with a metric cell that is no number and one with a thousands separator.\<close>

definition messyGrid :: "RawRow list" where
  "messyGrid = [[Str ''VM'', Str ''n/a''], [Str ''VM'', Str ''1,234.5''], [Str ''Disk'', NonString ''7'']]"


section \<open>Properties of the filter\<close>






section \<open>The sample runtime on the example grid\<close>

lemma upt3: "[0..<3] = [0, 1, 2]"
  by (simp add: upt_rec)

lemma sample_dates:
  "newDateFromString (sampleRuntime 0) ''2024-01-05'' = LocalDate 2024 0 5"
  "newDateFromString (sampleRuntime 0) ''2024-01-20'' = LocalDate 2024 0 20"
  "newDateFromString (sampleRuntime 0) ''2024-02-01'' = LocalDate 2024 1 1"
  by code_simp+

lemma sample_not_dates:
  "newDateFromString (sampleRuntime 0) ''10'' = InvalidDate"
  "newDateFromString (sampleRuntime 0) ''5'' = InvalidDate"
  "newDateFromString (sampleRuntime 0) ''7'' = InvalidDate"
  "newDateFromString (sampleRuntime 0) ''VM'' = InvalidDate"
  "newDateFromString (sampleRuntime 0) ''Storage'' = InvalidDate"
  by (simp_all add: newDateFromString_def isoDateOnly_def digits_def sampleRuntime_def Let_def)

lemma sample_numbers:
  "numberIsNaN (sampleRuntime 0) ''2024-01-05''"
  "numberIsNaN (sampleRuntime 0) ''2024-01-20''"
  "numberIsNaN (sampleRuntime 0) ''2024-02-01''"
  "\<not> numberIsNaN (sampleRuntime 0) ''10''"
  "\<not> numberIsNaN (sampleRuntime 0) ''5''"
  "\<not> numberIsNaN (sampleRuntime 0) ''7''"
  "numberIsNaN (sampleRuntime 0) ''VM''"
  "numberIsNaN (sampleRuntime 0) ''Storage''"
  by (simp_all add: sampleRuntime_def trim_def isWhiteSpace_def decimalPrefix_def Let_def
        isDigit_def digitsToNat_def digitVal_def)

lemma sample_trims:
  "trim ''2024-01-05'' = ''2024-01-05''"
  "trim ''2024-01-20'' = ''2024-01-20''"
  "trim ''2024-02-01'' = ''2024-02-01''"
  "trim ''10'' = ''10''" "trim ''5'' = ''5''" "trim ''7'' = ''7''"
  "trim ''VM'' = ''VM''" "trim ''Storage'' = ''Storage''"
  by (simp_all add: trim_def isWhiteSpace_def)

lemma example_detect:
  "detectFromData (sampleRuntime 0) None exampleGrid = \<lparr>dateIdx = 0, costIdx = 1, serviceIdx = 2\<rparr>"
  by (simp add: detectFromData_def columnCount_def exampleGrid_def columnScores_def upt3
        cellAt_def dateHit_def numericHit_def sample_trims sample_dates sample_not_dates sample_numbers
        Math_max_def Let_def)

lemma sample_parseFloat:
  "parseFloat (sampleRuntime 0) ''n/a'' = None"
  "parseFloat (sampleRuntime 0) ''1234.5'' = Some (2469 / 2)"
  "parseFloat (sampleRuntime 0) ''7'' = Some 7"
  by (simp_all add: sampleRuntime_def isWhiteSpace_def decimalPrefix_def Let_def
        isDigit_def digitsToNat_def digitVal_def)

lemma messy_sum:
  "pieData (sampleRuntime 0) (Some [''Service'', ''Cost'']) messyGrid (Some 1) [0] Sum []
     = [(''VM'', 2469 / 2), (''Disk'', 7)]"
  by (simp add: pieData_def messyGrid_def accumulate_def addRow_def pieKey_def
        buildGroupKey_def cellAt_def metricVal_def parseFloatSafe_def sample_parseFloat
        reduced_def Let_def)

lemma messy_count:
  "pieData (sampleRuntime 0) (Some [''Service'', ''Cost'']) messyGrid (Some 1) [0] Count []
     = [(''VM'', 2), (''Disk'', 1)]"
  by (simp add: pieData_def messyGrid_def accumulate_def addRow_def pieKey_def
        buildGroupKey_def cellAt_def metricVal_def reduced_def Let_def)







section \<open>Properties of the column classifier\<close>

lemma indexOf_bounds:
  "y \<in> set xs \<Longrightarrow> 0 \<le> indexOf xs y \<and> indexOf xs y < int (length xs)"
  by (induction xs) (auto simp: Let_def)

lemma indexOf_nth:
  "i < length xs \<Longrightarrow> xs ! i = y \<Longrightarrow> (\<forall>j < i. xs ! j \<noteq> y) \<Longrightarrow> indexOf xs y = int i"
proof (induction xs arbitrary: i)
  case Nil
  then show ?case by simp
next
  case (Cons x xs)
  show ?case
  proof (cases i)
    case 0
    with Cons.prems show ?thesis by simp
  next
    case (Suc k)
    with Cons.prems have k: "k < length xs" "xs ! k = y" by simp_all
    from Cons.prems Suc have "x \<noteq> y" by auto
    moreover have "\<forall>j < k. xs ! j \<noteq> y"
    proof (intro allI impI)
      fix j assume "j < k"
      then have "Suc j < i" using Suc by simp
      with Cons.prems(3) have "(x # xs) ! Suc j \<noteq> y" by blast
      then show "xs ! j \<noteq> y" by simp
    qed
    ultimately show ?thesis
      using Cons.IH [OF k(1) k(2)] Suc by (simp add: Let_def)
  qed
qed

lemma indexOf_absent: "y \<notin> set xs \<Longrightarrow> indexOf xs y = - 1"
  by (induction xs) (auto simp: Let_def)

lemma indexOf_all_equal: "xs \<noteq> [] \<Longrightarrow> \<forall>x \<in> set xs. x = y \<Longrightarrow> indexOf xs y = 0"
  by (cases xs) auto

lemma Math_max_in: "Math_max xs = Some m \<Longrightarrow> m \<in> set xs"
  by (auto simp: Math_max_def split: if_splits)

lemma Math_max_Some: "xs \<noteq> [] \<Longrightarrow> \<exists>m. Math_max xs = Some m"
  by (simp add: Math_max_def)

lemma length_columnScores: "length (columnScores hit cols rows) = cols"
  by (simp add: columnScores_def Let_def)

lemma maxIndex_bounds:
  assumes "xs \<noteq> []"
  shows "0 \<le> (case Math_max xs of None \<Rightarrow> - 1 | Some m \<Rightarrow> indexOf xs m)"
    and "(case Math_max xs of None \<Rightarrow> - 1 | Some m \<Rightarrow> indexOf xs m) < int (length xs)"
proof -
  from assms obtain m where m: "Math_max xs = Some m" using Math_max_Some by blast
  then have "m \<in> set xs" by (rule Math_max_in)
  then have "0 \<le> indexOf xs m \<and> indexOf xs m < int (length xs)" by (rule indexOf_bounds)
  with m show "0 \<le> (case Math_max xs of None \<Rightarrow> - 1 | Some m \<Rightarrow> indexOf xs m)"
    and "(case Math_max xs of None \<Rightarrow> - 1 | Some m \<Rightarrow> indexOf xs m) < int (length xs)"
    by simp_all
qed

lemma find_upt_bound:
  "(case find P [0..<n] of Some c \<Rightarrow> int c | None \<Rightarrow> 0) < int n" if "0 < n"
proof (cases "find P [0..<n]")
  case None
  with that show ?thesis by simp
next
  case (Some c)
  then have "c \<in> set [0..<n]" by (auto simp: find_Some_iff)
  with Some show ?thesis by simp
qed

lemma find_upt_nonneg: "0 \<le> (case find P [0..<n] of Some c \<Rightarrow> int c | None \<Rightarrow> 0)"
  by (cases "find P [0..<n]") simp_all

lemma columnScores_no_hit:
  assumes "\<forall>row \<in> set (take 10 rows). \<forall>c < cols. \<not> hit (cellAt row c)"
  shows "\<forall>x \<in> set (columnScores hit cols rows). x = 0"
proof -
  have t: "take (min (length rows) 10) rows = take 10 rows" by (simp add: min_def)
  show ?thesis
    using assms unfolding columnScores_def Let_def t by (auto simp: filter_empty_conv)
qed

lemma maxIndex_zero:
  assumes "xs \<noteq> []" and "\<forall>x \<in> set xs. x = (0::nat)"
  shows "(case Math_max xs of None \<Rightarrow> - 1 | Some m \<Rightarrow> indexOf xs m) = 0"
proof -
  from assms(1) obtain m where m: "Math_max xs = Some m" using Math_max_Some by blast
  then have "m \<in> set xs" by (rule Math_max_in)
  with assms(2) have "m = 0" by blast
  with m assms show ?thesis by (simp add: indexOf_all_equal)
qed

text \<open>
  Claim C1, amended. When the grid has at least one column (the length of the header if
  there is one, else the length of the first row, else 3 for a grid without rows),
  \<^const>\<open>detectFromData\<close> returns a date, a cost and a service index in
  \<open>[0, columnCount)\<close>, so all three are 0 on a single column; the date index is 0 when no
  sampled cell looks like a date and the cost index is 0 when none looks numeric.
\<close>

theorem detectFromData_in_range:
  assumes "0 < columnCount hdr rows"
  shows "(let mp = detectFromData rt hdr rows; n = int (columnCount hdr rows) in
          0 \<le> dateIdx mp \<and> dateIdx mp < n
          \<and> 0 \<le> costIdx mp \<and> costIdx mp < n
          \<and> 0 \<le> serviceIdx mp \<and> serviceIdx mp < n
          \<and> ((\<forall>row \<in> set (take 10 rows). \<forall>c < columnCount hdr rows. \<not> dateHit rt (cellAt row c))
                \<longrightarrow> dateIdx mp = 0)
          \<and> ((\<forall>row \<in> set (take 10 rows). \<forall>c < columnCount hdr rows. \<not> numericHit rt (cellAt row c))
                \<longrightarrow> costIdx mp = 0))"
proof -
  define cols where "cols = columnCount hdr rows"
  define ds where "ds = columnScores (dateHit rt) cols rows"
  define ns where "ns = columnScores (numericHit rt) cols rows"
  define di where "di = (case Math_max ds of None \<Rightarrow> - 1 | Some m \<Rightarrow> indexOf ds m)"
  define ci where "ci = (case Math_max ns of None \<Rightarrow> - 1 | Some m \<Rightarrow> indexOf ns m)"
  define si where "si = (case find (\<lambda>c. int c \<noteq> di \<and> int c \<noteq> ci) [0..<cols] of
                           Some c \<Rightarrow> int c | None \<Rightarrow> 0)"
  have mp: "detectFromData rt hdr rows
      = \<lparr>dateIdx = (if di \<ge> 0 then di else 0), costIdx = (if ci \<ge> 0 then ci else 1),
         serviceIdx = si\<rparr>"
    unfolding detectFromData_def Let_def cols_def ds_def ns_def di_def ci_def si_def ..
  from assms have pos: "0 < cols" by (simp add: cols_def)
  have lds: "length ds = cols" and lns: "length ns = cols"
    by (simp_all add: ds_def ns_def length_columnScores)
  with pos have ne: "ds \<noteq> []" "ns \<noteq> []" by auto
  have d: "0 \<le> di" "di < int cols"
    using maxIndex_bounds [OF ne(1)] lds by (simp_all add: di_def)
  have c: "0 \<le> ci" "ci < int cols"
    using maxIndex_bounds [OF ne(2)] lns by (simp_all add: ci_def)
  have s: "0 \<le> si" "si < int cols"
    unfolding si_def using find_upt_nonneg find_upt_bound [OF pos] by blast+
  have dz: "di = 0"
    if "\<forall>row \<in> set (take 10 rows). \<forall>c < cols. \<not> dateHit rt (cellAt row c)"
    unfolding di_def ds_def
    by (rule maxIndex_zero [OF ne(1) [unfolded ds_def] columnScores_no_hit [OF that]])
  have cz: "ci = 0"
    if "\<forall>row \<in> set (take 10 rows). \<forall>c < cols. \<not> numericHit rt (cellAt row c)"
    unfolding ci_def ns_def
    by (rule maxIndex_zero [OF ne(2) [unfolded ns_def] columnScores_no_hit [OF that]])
  show ?thesis
    unfolding Let_def mp cols_def [symmetric]
    using d c s dz cz by simp
qed

lemma text_no_hits:
  "\<not> dateHit (sampleRuntime 0) (Str ''a'')" "\<not> dateHit (sampleRuntime 0) (Str ''b'')"
  "\<not> numericHit (sampleRuntime 0) (Str ''a'')" "\<not> numericHit (sampleRuntime 0) (Str ''b'')"
  by (simp_all add: dateHit_def numericHit_def newDateFromString_def isoDateOnly_def digits_def
        sampleRuntime_def trim_def isWhiteSpace_def decimalPrefix_def isDigit_def Let_def)

theorem detectFromData_in_range_witness:
  "0 < columnCount None exampleGrid
   \<and> detectFromData (sampleRuntime 0) None exampleGrid
       = \<lparr>dateIdx = 0, costIdx = 1, serviceIdx = 2\<rparr>
   \<and> dateIdx (detectFromData (sampleRuntime 0) None exampleGrid) < 3
   \<and> costIdx (detectFromData (sampleRuntime 0) None exampleGrid) < 3
   \<and> serviceIdx (detectFromData (sampleRuntime 0) None exampleGrid) < 3
   \<and> 0 < columnCount None textGrid
   \<and> list_all (\<lambda>row. \<not> dateHit (sampleRuntime 0) (cellAt row 0)
                      \<and> \<not> dateHit (sampleRuntime 0) (cellAt row 1)
                      \<and> \<not> numericHit (sampleRuntime 0) (cellAt row 0)
                      \<and> \<not> numericHit (sampleRuntime 0) (cellAt row 1)) textGrid
   \<and> dateIdx (detectFromData (sampleRuntime 0) None textGrid) = 0
   \<and> costIdx (detectFromData (sampleRuntime 0) None textGrid) = 0"
proof -
  have n: "columnCount None exampleGrid = 3" by (simp add: columnCount_def exampleGrid_def)
  then have p: "0 < columnCount None exampleGrid" by simp
  from detectFromData_in_range [OF p, of "sampleRuntime 0"]
  have e: "dateIdx (detectFromData (sampleRuntime 0) None exampleGrid) < 3
   \<and> costIdx (detectFromData (sampleRuntime 0) None exampleGrid) < 3
   \<and> serviceIdx (detectFromData (sampleRuntime 0) None exampleGrid) < 3"
    unfolding Let_def n by simp
  have n2: "columnCount None textGrid = 2" by (simp add: columnCount_def textGrid_def)
  then have p2: "0 < columnCount None textGrid" by simp
  have h: "list_all (\<lambda>row. \<not> dateHit (sampleRuntime 0) (cellAt row 0)
                      \<and> \<not> dateHit (sampleRuntime 0) (cellAt row 1)
                      \<and> \<not> numericHit (sampleRuntime 0) (cellAt row 0)
                      \<and> \<not> numericHit (sampleRuntime 0) (cellAt row 1)) textGrid"
    by (simp add: textGrid_def cellAt_def text_no_hits)
  have c: "c = 0 \<or> c = 1" if "c < 2" for c :: nat using that by linarith
  from h have hd: "\<forall>row \<in> set (take 10 textGrid). \<forall>c < columnCount None textGrid.
      \<not> dateHit (sampleRuntime 0) (cellAt row c)"
    unfolding n2 by (auto simp: textGrid_def dest: c)
  from h have hn: "\<forall>row \<in> set (take 10 textGrid). \<forall>c < columnCount None textGrid.
      \<not> numericHit (sampleRuntime 0) (cellAt row c)"
    unfolding n2 by (auto simp: textGrid_def dest: c)
  from detectFromData_in_range [OF p2, of "sampleRuntime 0"] hd hn
  have t: "dateIdx (detectFromData (sampleRuntime 0) None textGrid) = 0
      \<and> costIdx (detectFromData (sampleRuntime 0) None textGrid) = 0"
    unfolding Let_def by blast
  from p example_detect e p2 h t show ?thesis by blast
qed

text \<open>
  The claim as stated fails on a grid without columns (an empty header row): the indices
  returned are 0, 1 and 0, and no index lies in \<open>[0, 0)\<close>. On the grid without header and
  rows the service index is 1, within the 3 columns the code then assumes.
\<close>

theorem detectFromData_no_columns_counterexample:
  "columnCount (Some []) [] = 0
   \<and> detectFromData (sampleRuntime 0) (Some []) []
       = \<lparr>dateIdx = 0, costIdx = 1, serviceIdx = 0\<rparr>
   \<and> \<not> costIdx (detectFromData (sampleRuntime 0) (Some []) []) < int (columnCount (Some []) [])
   \<and> detectFromData (sampleRuntime 0) None []
       = \<lparr>dateIdx = 0, costIdx = 0, serviceIdx = 1\<rparr>"
  by (simp add: columnCount_def detectFromData_def columnScores_def Math_max_def upt_rec)

text \<open>
  Claim C8, amended. With a header row, the first column named \<^verbatim>\<open>cost\<close> (in any
  case) is the cost column whatever the scores say, and the first column named
  \<^verbatim>\<open>metercategory\<close> is the service column; without such a name the scored guess
  stands. The date column is always the scored guess.
\<close>

theorem useMapping_header_names:
  "dateIdx (useMapping rt hdr rows) = dateIdx (detectFromData rt (Some hdr) rows)
   \<and> (\<forall>i < length hdr. toLowerCase (hdr ! i) = ''cost''
          \<and> (\<forall>j < i. toLowerCase (hdr ! j) \<noteq> ''cost'')
          \<longrightarrow> costIdx (useMapping rt hdr rows) = int i)
   \<and> (''cost'' \<notin> set (map toLowerCase hdr)
          \<longrightarrow> costIdx (useMapping rt hdr rows) = costIdx (detectFromData rt (Some hdr) rows))
   \<and> (\<forall>i < length hdr. toLowerCase (hdr ! i) = ''metercategory''
          \<and> (\<forall>j < i. toLowerCase (hdr ! j) \<noteq> ''metercategory'')
          \<longrightarrow> serviceIdx (useMapping rt hdr rows) = int i)
   \<and> (''metercategory'' \<notin> set (map toLowerCase hdr)
          \<longrightarrow> serviceIdx (useMapping rt hdr rows)
                = serviceIdx (detectFromData rt (Some hdr) rows))"
proof -
  have first: "indexOf (map toLowerCase hdr) name = int i"
    if "i < length hdr" "toLowerCase (hdr ! i) = name" "\<forall>j < i. toLowerCase (hdr ! j) \<noteq> name"
    for name i
  proof (rule indexOf_nth)
    show "i < length (map toLowerCase hdr)" using that(1) by simp
    show "map toLowerCase hdr ! i = name" using that(1,2) by simp
    show "\<forall>j < i. map toLowerCase hdr ! j \<noteq> name" using that(1,3) by simp
  qed
  have a: "dateIdx (useMapping rt hdr rows) = dateIdx (detectFromData rt (Some hdr) rows)"
    by (simp add: useMapping_def Let_def)
  have b: "costIdx (useMapping rt hdr rows) = int i"
    if "i < length hdr" "toLowerCase (hdr ! i) = ''cost''" "\<forall>j < i. toLowerCase (hdr ! j) \<noteq> ''cost''"
    for i
    using first [OF that] by (simp add: useMapping_def Let_def)
  have c: "costIdx (useMapping rt hdr rows) = costIdx (detectFromData rt (Some hdr) rows)"
    if "''cost'' \<notin> set (map toLowerCase hdr)"
    using indexOf_absent [OF that] by (simp add: useMapping_def Let_def)
  have d: "serviceIdx (useMapping rt hdr rows) = int i"
    if "i < length hdr" "toLowerCase (hdr ! i) = ''metercategory''"
       "\<forall>j < i. toLowerCase (hdr ! j) \<noteq> ''metercategory''"
    for i
    using first [OF that] by (simp add: useMapping_def Let_def)
  have e: "serviceIdx (useMapping rt hdr rows) = serviceIdx (detectFromData rt (Some hdr) rows)"
    if "''metercategory'' \<notin> set (map toLowerCase hdr)"
    using indexOf_absent [OF that] by (simp add: useMapping_def Let_def)
  from a b c d e show ?thesis by blast
qed

lemma azure_lower:
  "map toLowerCase azureHeader = [''servicename'', ''notes'', ''usagedate'', ''cost'']"
  by code_simp

lemma azure_guess:
  "detectFromData rt (Some azureHeader) [] = \<lparr>dateIdx = 0, costIdx = 0, serviceIdx = 1\<rparr>"
  by (simp add: detectFromData_def columnCount_def azureHeader_def columnScores_def
        Math_max_def Let_def upt_rec)

lemma azure_mapping:
  "useMapping rt azureHeader [] = \<lparr>dateIdx = 0, costIdx = 3, serviceIdx = 1\<rparr>"
  by (simp add: useMapping_def azure_guess azure_lower Let_def)

lemma meter_lower: "map toLowerCase meterHeader = [''day'', ''amount'', ''metercategory'']"
  by code_simp

lemma meter_guess:
  "detectFromData rt (Some meterHeader) [] = \<lparr>dateIdx = 0, costIdx = 0, serviceIdx = 1\<rparr>"
  by (simp add: detectFromData_def columnCount_def meterHeader_def columnScores_def
        Math_max_def Let_def upt_rec)

theorem useMapping_header_names_witness:
  "toLowerCase (azureHeader ! 3) = ''cost''
   \<and> costIdx (detectFromData (sampleRuntime 0) (Some azureHeader) []) = 0
   \<and> costIdx (useMapping (sampleRuntime 0) azureHeader []) = 3
   \<and> ''metercategory'' \<notin> set (map toLowerCase azureHeader)
   \<and> serviceIdx (useMapping (sampleRuntime 0) azureHeader []) = 1
   \<and> toLowerCase (meterHeader ! 2) = ''metercategory''
   \<and> serviceIdx (detectFromData (sampleRuntime 0) (Some meterHeader) []) = 1
   \<and> serviceIdx (useMapping (sampleRuntime 0) meterHeader []) = 2
   \<and> ''cost'' \<notin> set (map toLowerCase meterHeader)
   \<and> costIdx (useMapping (sampleRuntime 0) meterHeader []) = 0"
proof -
  note az = useMapping_header_names [of "sampleRuntime 0" azureHeader "[]"]
  note mt = useMapping_header_names [of "sampleRuntime 0" meterHeader "[]"]
  have l: "3 < length azureHeader" "2 < length meterHeader"
    by (simp_all add: azureHeader_def meterHeader_def)
  have c: "toLowerCase (azureHeader ! 3) = ''cost''"
    using azure_lower by (simp add: azureHeader_def)
  have n: "\<forall>j < 3. toLowerCase (azureHeader ! j) \<noteq> ''cost''"
  proof (intro allI impI)
    fix j :: nat assume "j < 3"
    then consider "j = 0" | "j = 1" | "j = 2" by linarith
    then show "toLowerCase (azureHeader ! j) \<noteq> ''cost''"
      using azure_lower by cases (auto simp: azureHeader_def)
  qed
  from az have "\<forall>i < length azureHeader. toLowerCase (azureHeader ! i) = ''cost''
          \<and> (\<forall>j < i. toLowerCase (azureHeader ! j) \<noteq> ''cost'')
          \<longrightarrow> costIdx (useMapping (sampleRuntime 0) azureHeader []) = int i"
    by blast
  with l c n have a1: "costIdx (useMapping (sampleRuntime 0) azureHeader []) = 3" by fastforce
  have a2: "''metercategory'' \<notin> set (map toLowerCase azureHeader)"
    unfolding azure_lower by simp
  with az have a3: "serviceIdx (useMapping (sampleRuntime 0) azureHeader []) = 1"
    by (simp add: azure_guess)
  have m: "toLowerCase (meterHeader ! 2) = ''metercategory''"
    using meter_lower by (simp add: meterHeader_def)
  have mn: "\<forall>j < 2. toLowerCase (meterHeader ! j) \<noteq> ''metercategory''"
  proof (intro allI impI)
    fix j :: nat assume "j < 2"
    then consider "j = 0" | "j = 1" by linarith
    then show "toLowerCase (meterHeader ! j) \<noteq> ''metercategory''"
      using meter_lower by cases (auto simp: meterHeader_def)
  qed
  from mt have "\<forall>i < length meterHeader. toLowerCase (meterHeader ! i) = ''metercategory''
          \<and> (\<forall>j < i. toLowerCase (meterHeader ! j) \<noteq> ''metercategory'')
          \<longrightarrow> serviceIdx (useMapping (sampleRuntime 0) meterHeader []) = int i"
    by blast
  with l m mn have m1: "serviceIdx (useMapping (sampleRuntime 0) meterHeader []) = 2"
    by fastforce
  have m2: "''cost'' \<notin> set (map toLowerCase meterHeader)"
    unfolding meter_lower by simp
  with mt have m3: "costIdx (useMapping (sampleRuntime 0) meterHeader []) = 0"
    by (simp add: meter_guess)
  from c a1 a2 a3 m m1 m2 m3 show ?thesis
    by (simp add: azure_guess meter_guess)
qed

text \<open>
  The claim as stated fails for the names \<^verbatim>\<open>UsageDate\<close> and \<^verbatim>\<open>ServiceName\<close>:
  neither moves the date or the service column.
\<close>

theorem useMapping_ignores_date_and_service_names_counterexample:
  "toLowerCase (azureHeader ! 2) = ''usagedate''
   \<and> dateIdx (useMapping (sampleRuntime 0) azureHeader []) \<noteq> 2
   \<and> toLowerCase (azureHeader ! 0) = ''servicename''
   \<and> serviceIdx (useMapping (sampleRuntime 0) azureHeader []) \<noteq> 0"
proof -
  have "toLowerCase (azureHeader ! 2) = ''usagedate''" "toLowerCase (azureHeader ! 0) = ''servicename''"
    unfolding azureHeader_def by code_simp+
  then show ?thesis by (simp add: azure_mapping)
qed

section \<open>Properties of the loader\<close>

text \<open>
  Claim C9, amended. When decoding fails, \<^verbatim>\<open>onDrop\<close> leaves the raw rows, the header,
  the mapping, the parsed data and the preview as they were, and sets the warning list to
  the single warning of this failure.
\<close>

theorem onDrop_decode_failure:
  "rawRows (onDrop rt st (DecodeError err)) = rawRows st
   \<and> headerRow (onDrop rt st (DecodeError err)) = headerRow st
   \<and> mapping (onDrop rt st (DecodeError err)) = mapping st
   \<and> data (onDrop rt st (DecodeError err)) = data st
   \<and> previewRows (onDrop rt st (DecodeError err)) = previewRows st
   \<and> warnings (onDrop rt st (DecodeError err)) = [''Failed to parse file: '' @ err]"
  by (simp add: onDrop_def)

text \<open>
  The warning is not appended: after two failed drops in a row the list holds the second
  warning only.
\<close>

theorem onDrop_second_failure_counterexample:
  "warnings (onDrop (sampleRuntime 0) initialState (DecodeError ''e1''))
     = [''Failed to parse file: e1'']
   \<and> warnings (onDrop (sampleRuntime 0)
        (onDrop (sampleRuntime 0) initialState (DecodeError ''e1'')) (DecodeError ''e2''))
     = [''Failed to parse file: e2'']
   \<and> warnings (onDrop (sampleRuntime 0)
        (onDrop (sampleRuntime 0) initialState (DecodeError ''e1'')) (DecodeError ''e2''))
     \<noteq> warnings (onDrop (sampleRuntime 0) initialState (DecodeError ''e1''))
         @ [''Failed to parse file: e2'']"
  by (simp add: onDrop_def initialState_def)

section \<open>Properties of the aggregator\<close>



lemma map_of_fold_addRow:
  "map_of (fold (addRow rules keyOf valOf) rows acc) g =
     (let grp = filter (\<lambda>row. matchesRow row rules \<and> keyOf row = g) rows in
      case map_of acc g of
        None \<Rightarrow> if grp = [] then None else Some (sum_list (map valOf grp), length grp)
      | Some (s, c) \<Rightarrow> Some (s + sum_list (map valOf grp), c + length grp))"
proof (induction rows arbitrary: acc)
  case Nil
  show ?case by (simp split: option.splits)
next
  case (Cons row rows)
  have step: "map_of (addRow rules keyOf valOf row acc) g =
      (if matchesRow row rules \<and> keyOf row = g
       then Some (fst (case map_of acc g of Some p \<Rightarrow> p | None \<Rightarrow> (0, 0)) + valOf row,
                  snd (case map_of acc g of Some p \<Rightarrow> p | None \<Rightarrow> (0, 0)) + 1)
       else map_of acc g)"
    by (simp add: addRow_def Let_def update_conv')
  show ?case
    unfolding fold_simps Cons.IH step
    by (auto simp: Let_def split: option.splits)
qed

lemma distinct_fold_addRow:
  "distinct (map fst acc) \<Longrightarrow> distinct (map fst (fold (addRow rules keyOf valOf) rows acc))"
proof (induction rows arbitrary: acc)
  case Nil
  then show ?case by simp
next
  case (Cons row rows)
  have "distinct (map fst (addRow rules keyOf valOf row acc))"
    using Cons.prems by (simp add: addRow_def Let_def distinct_update)
  then show ?case by (simp add: Cons.IH)
qed

lemma distinct_accumulate: "distinct (map fst (accumulate rules keyOf valOf rows))"
  unfolding accumulate_def by (rule distinct_fold_addRow) simp

lemma map_of_accumulate:
  "map_of (accumulate rules keyOf valOf rows) g =
     (let grp = filter (\<lambda>row. matchesRow row rules \<and> keyOf row = g) rows in
      if grp = [] then None else Some (sum_list (map valOf grp), length grp))"
  unfolding accumulate_def map_of_fold_addRow by simp


lemma map_of_reduced:
  "map_of (map (\<lambda>(group, t). (group, reduced agg t)) al) g = map_option (reduced agg) (map_of al g)"
  by (induction al) auto







lemma metricVal_Avg: "metricVal rt Avg m = (\<lambda>row. parseFloatSafe rt (cellAt row m))"
  by (simp add: metricVal_def fun_eq_iff)

lemma metricVal_Count: "metricVal rt Count m = (\<lambda>row. 1)"
  by (simp add: metricVal_def fun_eq_iff)

lemma metricVal_Sum: "metricVal rt Sum m = (\<lambda>row. parseFloatSafe rt (cellAt row m))"
  by (simp add: metricVal_def fun_eq_iff)


lemma pieData_map_of:
  "map_of (pieData rt (Some h) rows (Some m) dims agg rules) g =
     (let grp = filter (\<lambda>row. matchesRow row rules \<and> pieKey dims row = g) rows in
      if grp = [] then None
      else Some (reduced agg (sum_list (map (metricVal rt agg m) grp), length grp)))"
proof (cases "rows = []")
  case True
  then show ?thesis by (simp add: pieData_def)
next
  case False
  then show ?thesis
    by (simp add: pieData_def map_of_reduced map_of_accumulate Let_def)
qed

lemma sum_list_ones: "sum_list (map (\<lambda>x. 1 :: rat) xs) = of_nat (length xs)"
  by (induction xs) auto

text \<open>
  Claim C3. Under \<^verbatim>\<open>count\<close> the series does not depend on the metric column or on
  the number parser, and the value of a group is the number of matching rows of the group.
  Under \<^verbatim>\<open>sum\<close> and \<^verbatim>\<open>avg\<close> it is the sum, or the mean, of
  \<^const>\<open>parseFloatSafe\<close> over those rows: \<^verbatim>\<open>parseFloat\<close> of the cell's string without
  its commas, which is 0 when that is \<^verbatim>\<open>NaN\<close>. Each group occurs once.
\<close>

theorem reducers_read_metric:
  "pieData rt (Some h) rows (Some m) dims Count rules
     = pieData rt' (Some h) rows (Some m') dims Count rules
   \<and> (let grp = filter (\<lambda>row. matchesRow row rules \<and> pieKey dims row = g) rows;
           vals = map (\<lambda>row. parseFloatSafe rt (cellAt row m)) grp
       in map_of (pieData rt (Some h) rows (Some m) dims Count rules) g
            = (if grp = [] then None else Some (of_nat (length grp)))
          \<and> map_of (pieData rt (Some h) rows (Some m) dims Sum rules) g
            = (if grp = [] then None else Some (sum_list vals))
          \<and> map_of (pieData rt (Some h) rows (Some m) dims Avg rules) g
            = (if grp = [] then None else Some (sum_list vals / of_nat (length grp))))
   \<and> distinct (map fst (pieData rt (Some h) rows (Some m) dims agg rules))
   \<and> parseFloatSafe rt v
       = (case parseFloat rt (filter (\<lambda>c. c \<noteq> CHR '','') (cellString v)) of
            None \<Rightarrow> 0 | Some n \<Rightarrow> n)
   \<and> (parseFloat rt (filter (\<lambda>c. c \<noteq> CHR '','') (cellString v)) = None
        \<longrightarrow> parseFloatSafe rt v = 0)"
proof -
  have a: "pieData rt (Some h) rows (Some m) dims Count rules
     = pieData rt' (Some h) rows (Some m') dims Count rules"
    by (simp add: pieData_def metricVal_Count)
  have b: "map_of (pieData rt (Some h) rows (Some m) dims Count rules) g
            = (if grp = [] then None else Some (of_nat (length grp)))"
    if "grp = filter (\<lambda>row. matchesRow row rules \<and> pieKey dims row = g) rows" for grp
    unfolding pieData_map_of that
    by (simp add: Let_def reduced_def metricVal_Count sum_list_ones)
  have c: "map_of (pieData rt (Some h) rows (Some m) dims Sum rules) g
            = (if grp = [] then None
               else Some (sum_list (map (\<lambda>row. parseFloatSafe rt (cellAt row m)) grp)))"
    if "grp = filter (\<lambda>row. matchesRow row rules \<and> pieKey dims row = g) rows" for grp
    unfolding pieData_map_of that
    by (simp add: Let_def reduced_def metricVal_Sum metricVal_Avg)
  have d: "map_of (pieData rt (Some h) rows (Some m) dims Avg rules) g
            = (if grp = [] then None
               else Some (sum_list (map (\<lambda>row. parseFloatSafe rt (cellAt row m)) grp)
                          / of_nat (length grp)))"
    if "grp = filter (\<lambda>row. matchesRow row rules \<and> pieKey dims row = g) rows" for grp
    unfolding pieData_map_of that
    by (simp add: Let_def reduced_def metricVal_Sum metricVal_Avg)
  have e: "distinct (map fst (pieData rt (Some h) rows (Some m) dims agg rules))"
  proof -
    have "fst \<circ> (\<lambda>(group, t). (group, reduced agg t)) = (fst :: string \<times> rat \<times> nat \<Rightarrow> string)"
      by (simp add: fun_eq_iff)
    then show ?thesis by (simp add: pieData_def distinct_accumulate)
  qed
  have f: "parseFloatSafe rt v
       = (case parseFloat rt (filter (\<lambda>c. c \<noteq> CHR '','') (cellString v)) of
            None \<Rightarrow> 0 | Some n \<Rightarrow> n)"
    by (simp add: parseFloatSafe_def)
  have g: "parseFloat rt (filter (\<lambda>c. c \<noteq> CHR '','') (cellString v)) = None
        \<longrightarrow> parseFloatSafe rt v = 0"
    by (simp add: parseFloatSafe_def)
  show ?thesis
    unfolding Let_def using a b [OF refl] c [OF refl] d [OF refl] e f g by blast
qed

theorem reducers_read_metric_witness:
  "parseFloat (sampleRuntime 0) (filter (\<lambda>c. c \<noteq> CHR '','') (cellString (Str ''n/a''))) = None
   \<and> parseFloatSafe (sampleRuntime 0) (Str ''n/a'') = 0
   \<and> pieData (sampleRuntime 0) (Some [''Service'', ''Cost'']) messyGrid (Some 1) [0] Sum []
       = [(''VM'', 2469 / 2), (''Disk'', 7)]
   \<and> pieData (sampleRuntime 0) (Some [''Service'', ''Cost'']) messyGrid (Some 1) [0] Count []
       = [(''VM'', 2), (''Disk'', 1)]"
proof -
  have n: "parseFloat (sampleRuntime 0) (filter (\<lambda>c. c \<noteq> CHR '','') (cellString (Str ''n/a'')))
      = None"
    by (simp add: sample_parseFloat)
  from reducers_read_metric [where rt = "sampleRuntime 0" and v = "Str ''n/a''"]
  have "parseFloat (sampleRuntime 0) (filter (\<lambda>c. c \<noteq> CHR '','') (cellString (Str ''n/a''))) = None
        \<longrightarrow> parseFloatSafe (sampleRuntime 0) (Str ''n/a'') = 0"
    by blast
  with n have "parseFloatSafe (sampleRuntime 0) (Str ''n/a'') = 0" by blast
  with n messy_sum messy_count show ?thesis by blast
qed










lemma metricVal_nonneg:
  "(matchesRow row rules \<longrightarrow> 0 \<le> parseFloatSafe rt (cellAt row m))
     \<Longrightarrow> matchesRow row rules \<longrightarrow> 0 \<le> metricVal rt agg m row"
  by (simp add: metricVal_def)



lemma fst_reduced: "map fst (map (\<lambda>(date, t). (date, reduced agg t)) al) = map fst al"
  by (induction al) auto











section \<open>Properties of the date bucketer\<close>










lemma year999:
  "isoDateOnly ''0999-05'' = Some (999, 5, 1)"
  "daysFromCivil 999 5 1 = - 354530"
  "civilFromDays (- 354530) = (999, 5, 1)"
  "civilFromDays (- 354531) = (999, 4, 30)"
  by code_simp+

lemma year2024:
  "isoDateOnly ''2024-01'' = Some (2024, 1, 1)"
  "daysFromCivil 2024 1 1 = 19723"
  "civilFromDays 19722 = (2023, 12, 31)"
  by code_simp+

lemma shown:
  "showInt 999 = ''999''" "showInt 2023 = ''2023''"
  "padStart2 (showInt 5) = ''05''" "padStart2 (showInt 4) = ''04''"
  "padStart2 (showInt 12) = ''12''"
  by code_simp+

lemma trimmed_months:
  "trim ''0999-05'' = ''0999-05''" "trim ''2024-01'' = ''2024-01''"
  by (simp_all add: trim_def isWhiteSpace_def)

lemma div_day:
  "- 1440 \<le> (x :: int) \<Longrightarrow> x < 1440 \<Longrightarrow> x div 1440 = (if x < 0 then - 1 else 0)"
  by (auto simp: div_pos_neg_trivial div_eq_minus1 zdiv_eq_0_iff)

text \<open>
  Claim C4 does not hold of the code. Under \<^verbatim>\<open>auto\<close>, \<^verbatim>\<open>new Date("YYYY-MM")\<close>
  is midnight UTC of the first of the month, and the bucket is printed from the local
  year and month without padding the year. So \<^verbatim>\<open>0999-05\<close> is bucketed to
  \<^verbatim>\<open>999-05\<close> (to \<^verbatim>\<open>999-04\<close> where local time is behind UTC), and
  \<^verbatim>\<open>2024-01\<close> is bucketed to \<^verbatim>\<open>2023-12\<close> where local time is behind UTC.
\<close>

theorem formatDateBucket_not_idempotent:
  "(- 1440 \<le> localOffset rt (daysFromCivil 999 5 1) \<and> localOffset rt (daysFromCivil 999 5 1) < 1440
      \<longrightarrow> formatDateBucket rt (Str ''0999-05'') True Auto
            = (if localOffset rt (daysFromCivil 999 5 1) < 0 then ''999-04'' else ''999-05''))
   \<and> (- 1440 \<le> localOffset rt (daysFromCivil 2024 1 1) \<and> localOffset rt (daysFromCivil 2024 1 1) < 0
      \<longrightarrow> formatDateBucket rt (Str ''2024-01'') True Auto = ''2023-12'')"
proof -
  have a: "formatDateBucket rt (Str ''0999-05'') True Auto
            = (if localOffset rt (daysFromCivil 999 5 1) < 0 then ''999-04'' else ''999-05'')"
    if "- 1440 \<le> localOffset rt (daysFromCivil 999 5 1)"
       "localOffset rt (daysFromCivil 999 5 1) < 1440"
  proof -
    from that have d: "localOffset rt (- 354530) div 1440
        = (if localOffset rt (- 354530) < 0 then - 1 else 0)"
      unfolding year999 by (rule div_day)
    show ?thesis
      unfolding year999
      by (simp add: formatDateBucket_def trimmed_months newDateFromString_def year999 d shown)
  qed
  have b: "formatDateBucket rt (Str ''2024-01'') True Auto = ''2023-12''"
    if "- 1440 \<le> localOffset rt (daysFromCivil 2024 1 1)"
       "localOffset rt (daysFromCivil 2024 1 1) < 0"
  proof -
    from that have "localOffset rt 19723 div 1440
        = (if localOffset rt 19723 < 0 then - 1 else 0)"
      unfolding year2024 by (intro div_day) simp_all
    with that have d: "localOffset rt 19723 div 1440 = - 1" unfolding year2024 by simp
    show ?thesis
      by (simp add: formatDateBucket_def trimmed_months newDateFromString_def year2024 d shown)
  qed
  from a b show ?thesis by blast
qed

theorem formatDateBucket_not_idempotent_witness:
  "- 1440 \<le> localOffset (sampleRuntime 0) (daysFromCivil 999 5 1)
   \<and> localOffset (sampleRuntime 0) (daysFromCivil 999 5 1) < 1440
   \<and> formatDateBucket (sampleRuntime 0) (Str ''0999-05'') True Auto = ''999-05''
   \<and> - 1440 \<le> localOffset (sampleRuntime (- 300)) (daysFromCivil 2024 1 1)
   \<and> localOffset (sampleRuntime (- 300)) (daysFromCivil 2024 1 1) < 0
   \<and> formatDateBucket (sampleRuntime (- 300)) (Str ''2024-01'') True Auto = ''2023-12''"
proof -
  have o: "localOffset (sampleRuntime off) z = off" for off z
    by (simp add: sampleRuntime_def)
  from formatDateBucket_not_idempotent [of "sampleRuntime 0"]
  have a: "formatDateBucket (sampleRuntime 0) (Str ''0999-05'') True Auto = ''999-05''"
    by (simp add: o)
  from formatDateBucket_not_idempotent [of "sampleRuntime (- 300)"]
  have b: "formatDateBucket (sampleRuntime (- 300)) (Str ''2024-01'') True Auto = ''2023-12''"
    by (simp add: o)
  from a b show ?thesis by (simp add: o)
qed

end
